theory Spec2Isabelle
  imports Complex_Main
begin

section \<open>JavaScript values and exceptions\<close>

text \<open>
  A value produced by \<^verbatim>\<open>response.json()\<close>.  A number is held by the text JavaScript
  prints for it (\<^verbatim>\<open>String(n)\<close>), so that no floating-point arithmetic is modelled; the
  only falsy number a JSON text can yield prints as \<^verbatim>\<open>0\<close>.
\<close>

datatype json =
    JNull
  | JBool bool
  | JNum string
  | JStr string
  | JArr "json list"
  | JObj "(string \<times> json) list"

text \<open>
  The codes of \<^verbatim>\<open>TRPCError\<close> the routers use.  The error kinds of the specification are
  these codes with the messages of the source: \<^verbatim>\<open>NotFound\<close> is \<^verbatim>\<open>NOT_FOUND\<close>;
  \<^verbatim>\<open>PreconditionFailed\<close>, \<^verbatim>\<open>Expired\<close> and \<^verbatim>\<open>LimitExceeded\<close> are \<^verbatim>\<open>BAD_REQUEST\<close>
  raised by the precondition, expiry and usage-limit checks; \<^verbatim>\<open>UpstreamError\<close> and
  \<^verbatim>\<open>InvalidResponse\<close> are \<^verbatim>\<open>INTERNAL_SERVER_ERROR\<close> raised by the response handler, with
  the messages \<^verbatim>\<open>Zoho API error: ...\<close> and \<^verbatim>\<open>Invalid response format from Zoho API\<close>.
\<close>

datatype trpc_code = NOT_FOUND | BAD_REQUEST | INTERNAL_SERVER_ERROR

text \<open>
  What a \<^verbatim>\<open>throw\<close> carries: a \<^verbatim>\<open>TRPCError\<close> with its code and message, or any other
  \<^verbatim>\<open>Error\<close> (a rejected \<^verbatim>\<open>fetch\<close>, a \<^verbatim>\<open>SyntaxError\<close> of the JSON parser, an error of the
  database client) with its message.
\<close>

datatype exn = TRPCError trpc_code string | Error string

fun instanceof_TRPCError :: "exn \<Rightarrow> bool" where
  "instanceof_TRPCError (TRPCError c m) = True"
| "instanceof_TRPCError (Error m) = False"

text \<open>\<^verbatim>\<open>Array.prototype.join\<close> on strings.\<close>

fun join :: "string \<Rightarrow> string list \<Rightarrow> string" where
  "join sep [] = []"
| "join sep [x] = x"
| "join sep (x # y # ys) = x @ sep @ join sep (y # ys)"

text \<open>
  String conversion of a template literal (\<^verbatim>\<open>`${v}`\<close>): an array joins its elements with
  commas, \<^verbatim>\<open>null\<close> elements printing as nothing; a plain object prints as
  \<^verbatim>\<open>[object Object]\<close>.
\<close>

fun js_toString :: "json \<Rightarrow> string" where
  "js_toString JNull = ''null''"
| "js_toString (JBool b) = (if b then ''true'' else ''false'')"
| "js_toString (JNum n) = n"
| "js_toString (JStr s) = s"
| "js_toString (JArr xs) = join '','' (map (\<lambda>x. if x = JNull then [] else js_toString x) xs)"
| "js_toString (JObj kvs) = ''[object Object]''"

text \<open>Truthiness (\<^verbatim>\<open>!v\<close> is its negation).\<close>

fun truthy :: "json \<Rightarrow> bool" where
  "truthy JNull = False"
| "truthy (JBool b) = b"
| "truthy (JNum n) = (n \<noteq> ''0'')"
| "truthy (JStr s) = (s \<noteq> [])"
| "truthy (JArr xs) = True"
| "truthy (JObj kvs) = True"

text \<open>\<^verbatim>\<open>typeof v === "object"\<close>: true of \<^verbatim>\<open>null\<close>, arrays and plain objects.\<close>

fun typeof_object :: "json \<Rightarrow> bool" where
  "typeof_object JNull = True"
| "typeof_object (JArr xs) = True"
| "typeof_object (JObj kvs) = True"
| "typeof_object v = False"

text \<open>
  Property read \<^verbatim>\<open>v.k\<close> for the keys the code reads (\<^verbatim>\<open>id\<close>, \<^verbatim>\<open>code\<close>, \<^verbatim>\<open>message\<close>,
  \<^verbatim>\<open>status\<close>), \<^verbatim>\<open>None\<close> standing for \<^verbatim>\<open>undefined\<close>.  The parser keeps the last of
  several equal keys; arrays and primitives have none of these properties.
\<close>

fun get_prop :: "json \<Rightarrow> string \<Rightarrow> json option" where
  "get_prop (JObj kvs) k = map_of (rev kvs) k"
| "get_prop v k = None"

text \<open>\<^verbatim>\<open>k in v\<close> for an object or array \<open>v\<close>.\<close>

definition has_prop :: "string \<Rightarrow> json \<Rightarrow> bool" where
  "has_prop k v = (get_prop v k \<noteq> None)"

text \<open>\<^verbatim>\<open>!v.k\<close> negated: the property is there and truthy.\<close>

definition truthy_prop :: "json \<Rightarrow> string \<Rightarrow> bool" where
  "truthy_prop v k = (case get_prop v k of None \<Rightarrow> False | Some x \<Rightarrow> truthy x)"

section \<open>The external service adapter\<close>

text \<open>
  A \<^verbatim>\<open>Response\<close> of \<^verbatim>\<open>fetch\<close>: its \<^verbatim>\<open>ok\<close> flag (status 200 to 299), its status text,
  and what \<^verbatim>\<open>response.json()\<close> settles to, \<open>Inl m\<close> when it rejects with an error of
  message \<open>m\<close> (the body is not JSON).
\<close>

record response =
  ok :: bool
  statusText :: string
  body :: "string + json"

fun isZohoErrorResponse :: "json \<Rightarrow> bool" where
  "isZohoErrorResponse error =
     (typeof_object error \<and> error \<noteq> JNull \<and>
      has_prop ''code'' error \<and> has_prop ''message'' error \<and> has_prop ''status'' error)"

text \<open>The message of an error body, as the template literal prints it.\<close>

definition errorData_message :: "json \<Rightarrow> string" where
  "errorData_message errorData =
     (case get_prop errorData ''message'' of None \<Rightarrow> ''undefined'' | Some m \<Rightarrow> js_toString m)"

definition handleZohoApiResponse :: "response \<Rightarrow> exn + json" where
  "handleZohoApiResponse response =
     (if \<not> ok response then
        (let errorMessage =
           (case body response of
              Inr errorData \<Rightarrow>
                if isZohoErrorResponse errorData then errorData_message errorData
                else statusText response
            | Inl parse_failure \<Rightarrow> statusText response)
         in Inl (TRPCError INTERNAL_SERVER_ERROR (''Zoho API error: '' @ errorMessage)))
      else
        (case body response of
           Inl parse_failure \<Rightarrow> Inl (Error parse_failure)
         | Inr data \<Rightarrow>
             if \<not> truthy data \<or> \<not> typeof_object data then
               Inl (TRPCError INTERNAL_SERVER_ERROR ''Invalid response format from Zoho API'')
             else Inr data))"

text \<open>
  The body of a contact write (\<^verbatim>\<open>ZohoContactData\<close>, one element in \<^verbatim>\<open>data\<close>) and of a
  sales-order write (\<^verbatim>\<open>ZohoSalesOrderData\<close>).  An amount is carried, never computed with.
\<close>

record ZohoContactData =
  Last_Name :: string
  First_Name :: string
  Email :: string
  Phone :: string
  Company :: string
  Mailing_Street :: string
  Mailing_City :: string
  Mailing_State :: string
  Mailing_Zip :: string
  Mailing_Country :: string
  Industry :: string
  Description :: string
  Lead_Source :: string
  trigger :: "string list"

record ZohoSalesOrderData =
  Contact_Name :: string
  Subject :: string
  Deal_Name :: string
  Grand_Total :: rat
  Sub_Total :: rat
  Tax_Amount :: rat
  Discount :: rat
  Adjustment :: rat
  so_Status :: string
  so_Description :: string
  Terms_and_Conditions :: string
  so_trigger :: "string list"

text \<open>
  The requests the adapter sends, by method, resource and payload.  The remote service is
  outside the program: it is a parameter that answers each request either with a
  rejection of \<^verbatim>\<open>fetch\<close> (\<open>Inl\<close>, the error's message) or with a response.
\<close>

datatype request =
    POST_Contacts ZohoContactData
  | PUT_Contacts string ZohoContactData
  | POST_Sales_Orders ZohoSalesOrderData
  | GET_Contacts string
  | GET_Contacts_search string
  | GET_Sales_Orders_search string
  | GET_Deals_search string
  | GET_Tasks_search string
  | GET_Notes_search string

type_synonym remote = "request \<Rightarrow> string + response"

text \<open>\<^verbatim>\<open>await fetch(...)\<close> followed by \<^verbatim>\<open>handleZohoApiResponse\<close>.\<close>

definition fetch_and_handle :: "remote \<Rightarrow> request \<Rightarrow> exn + json" where
  "fetch_and_handle remote req =
     (case remote req of
        Inl network_failure \<Rightarrow> Inl (Error network_failure)
      | Inr response \<Rightarrow> handleZohoApiResponse response)"

definition createZohoContact :: "remote \<Rightarrow> ZohoContactData \<Rightarrow> exn + json" where
  "createZohoContact remote contactData = fetch_and_handle remote (POST_Contacts contactData)"

definition updateZohoContact :: "remote \<Rightarrow> string \<Rightarrow> ZohoContactData \<Rightarrow> exn + json" where
  "updateZohoContact remote contactId contactData =
     fetch_and_handle remote (PUT_Contacts contactId contactData)"

definition createZohoSalesOrder :: "remote \<Rightarrow> ZohoSalesOrderData \<Rightarrow> exn + json" where
  "createZohoSalesOrder remote salesOrderData =
     fetch_and_handle remote (POST_Sales_Orders salesOrderData)"

text \<open>
  The read-style lookups catch what their \<^verbatim>\<open>try\<close> block throws: a \<^verbatim>\<open>TRPCError\<close> is
  thrown again, anything else is logged and degrades to \<open>fallback\<close> (\<^verbatim>\<open>null\<close> or \<^verbatim>\<open>[]\<close>).
\<close>

definition rethrow_or :: "json \<Rightarrow> exn + json \<Rightarrow> exn + json" where
  "rethrow_or fallback r =
     (case r of
        Inr data \<Rightarrow> Inr data
      | Inl error \<Rightarrow> if instanceof_TRPCError error then Inl error else Inr fallback)"

definition getZohoContact :: "remote \<Rightarrow> string \<Rightarrow> exn + json" where
  "getZohoContact remote contactId =
     rethrow_or JNull (fetch_and_handle remote (GET_Contacts contactId))"






section \<open>The persistent store\<close>

text \<open>
  The tables the routers read and write, each a list of rows in insertion order.
  \<^verbatim>\<open>CompanyInfo\<close> and \<^verbatim>\<open>Agreement\<close> are the rows a checkout session is fetched with
  (\<^verbatim>\<open>include\<close>); a column that may be \<^verbatim>\<open>null\<close> is an option.  Timestamps are
  milliseconds since the epoch.
\<close>

record User =
  user_id :: string
  user_email :: "string option"
  user_password :: "string option"
  user_name :: "string option"

record CompanyInfo =
  contactName :: "string option"
  email :: "string option"
  phone :: "string option"
  companyName :: "string option"
  address :: "string option"
  city :: "string option"
  state :: "string option"
  zipCode :: "string option"
  country :: "string option"
  industry :: "string option"

record Agreement =
  agreement_status :: string

record CheckoutSession =
  cs_id :: string
  cs_userId :: string
  cs_module :: "string option"
  cs_status :: string
  cs_companyInfo :: "CompanyInfo option"
  cs_agreement :: "Agreement option"

record ZohoAccountLink =
  zl_userId :: string
  zl_zohoUserId :: string
  zl_updatedAt :: int

record SalesOrder =
  so_checkoutSessionId :: string
  so_zohoSalesOrderId :: "string option"
  so_amount :: rat
  so_currency :: string

record SignupLink =
  sl_id :: string
  zoho_id :: string
  login_code :: string
  expires_at :: int
  usage_limit :: int
  usage_count :: int
  is_active :: bool
  created_at :: int
  updated_at :: int

record database =
  users :: "User list"
  checkoutSessions :: "CheckoutSession list"
  zohoAccountLinks :: "ZohoAccountLink list"
  salesOrders :: "SalesOrder list"
  signupLinks :: "SignupLink list"

text \<open>\<^verbatim>\<open>findFirst\<close> and \<^verbatim>\<open>findUnique\<close>: the first row that satisfies the \<^verbatim>\<open>where\<close> clause.\<close>

definition findFirst :: "('a \<Rightarrow> bool) \<Rightarrow> 'a list \<Rightarrow> 'a option" where
  "findFirst wh rows = find wh rows"

text \<open>\<^verbatim>\<open>update\<close>: the rows the \<^verbatim>\<open>where\<close> clause selects get the new data.\<close>

definition update_where :: "('a \<Rightarrow> bool) \<Rightarrow> ('a \<Rightarrow> 'a) \<Rightarrow> 'a list \<Rightarrow> 'a list" where
  "update_where wh data rows = map (\<lambda>r. if wh r then data r else r) rows"

text \<open>
  The database client checks a value against its column's type before it writes: a
  remote identifier that is not a string makes the write throw (an error of the client,
  not a \<^verbatim>\<open>TRPCError\<close>).
\<close>

definition string_column :: "json \<Rightarrow> exn + string" where
  "string_column v = (case v of JStr s \<Rightarrow> Inr s | _ \<Rightarrow> Inl (Error ''Invalid value: expected String''))"

section \<open>The checkout session state machine\<close>

text \<open>\<^verbatim>\<open>String.prototype.split\<close> on a one-character separator.\<close>

fun split_acc :: "char \<Rightarrow> string \<Rightarrow> string \<Rightarrow> string list" where
  "split_acc sep cur [] = [cur]"
| "split_acc sep cur (x # xs) =
     (if x = sep then cur # split_acc sep [] xs else split_acc sep (cur @ [x]) xs)"

definition split :: "string \<Rightarrow> char \<Rightarrow> string list" where
  "split s sep = split_acc sep [] s"

text \<open>\<^verbatim>\<open>xs.slice(-1)\<close> and \<^verbatim>\<open>xs.slice(0, -1)\<close>.\<close>

definition slice_last :: "'a list \<Rightarrow> 'a list" where
  "slice_last xs = (case rev xs of [] \<Rightarrow> [] | x # _ \<Rightarrow> [x])"

definition slice_but_last :: "'a list \<Rightarrow> 'a list" where
  "slice_but_last xs = butlast xs"

text \<open>\<^verbatim>\<open>a ?? b\<close> on a nullable column.\<close>

definition nullish :: "'a option \<Rightarrow> 'a \<Rightarrow> 'a" where
  "nullish a b = (case a of None \<Rightarrow> b | Some v \<Rightarrow> v)"

text \<open>The authenticated caller (\<^verbatim>\<open>ctx.session.user.id\<close>).\<close>

record caller =
  session_user_id :: string

record contact_input =
  ci_userId :: "string option"
  ci_checkoutSessionId :: string
  ci_requireAgreementSigned :: bool

text \<open>
  The principal the contact operation runs for: \<^verbatim>\<open>input.userId ?? ctx.session.user.id\<close>,
  used for the session lookup and for the account link alike.
\<close>

definition principal :: "caller \<Rightarrow> contact_input \<Rightarrow> string" where
  "principal ctx inp = nullish (ci_userId inp) (session_user_id ctx)"

record contact_result =
  zohoContactId :: string
  isUpdate :: bool
  zohoLink :: ZohoAccountLink
  cr_message :: string

text \<open>Step 4 of \<^verbatim>\<open>createOrUpdateContact\<close>: the payload for the remote contact.\<close>

definition prepare_contactData :: "CheckoutSession \<Rightarrow> CompanyInfo \<Rightarrow> User \<Rightarrow> ZohoContactData" where
  "prepare_contactData checkoutSession companyInfo user =
     (let contactName' = nullish (contactName companyInfo) [];
          nameParts = split contactName' CHR '' '';
          lastName = join '' '' (slice_last nameParts);
          firstName = join '' '' (slice_but_last nameParts)
      in \<lparr> Last_Name = lastName,
           First_Name = firstName,
           Email = (case email companyInfo of Some e \<Rightarrow> e | None \<Rightarrow> nullish (user_email user) []),
           Phone = nullish (phone companyInfo) [],
           Company = nullish (companyName companyInfo) [],
           Mailing_Street = nullish (address companyInfo) [],
           Mailing_City = nullish (city companyInfo) [],
           Mailing_State = nullish (state companyInfo) [],
           Mailing_Zip = nullish (zipCode companyInfo) [],
           Mailing_Country = nullish (country companyInfo) ''US'',
           Industry = nullish (industry companyInfo) [],
           Description = ''Created via checkout session: '' @ cs_id checkoutSession,
           Lead_Source = ''Website Checkout'',
           trigger = [''approval'', ''workflow''] \<rparr>)"

text \<open>Step 6: \<^verbatim>\<open>zohoAccountLink.upsert\<close> keyed by the user id; it returns the stored row.\<close>

definition zohoAccountLink_upsert ::
  "string \<Rightarrow> string \<Rightarrow> int \<Rightarrow> ZohoAccountLink list \<Rightarrow> ZohoAccountLink \<times> ZohoAccountLink list" where
  "zohoAccountLink_upsert userId zohoContactId' now rows =
     (case findFirst (\<lambda>l. zl_userId l = userId) rows of
        None \<Rightarrow>
          (let created = \<lparr> zl_userId = userId, zl_zohoUserId = zohoContactId', zl_updatedAt = now \<rparr>
           in (created, rows @ [created]))
      | Some l \<Rightarrow>
          (l\<lparr> zl_zohoUserId := zohoContactId', zl_updatedAt := now \<rparr>,
           update_where (\<lambda>l. zl_userId l = userId)
             (\<lambda>l. l\<lparr> zl_zohoUserId := zohoContactId', zl_updatedAt := now \<rparr>) rows))"

text \<open>Step 7 (and step 8 of the sales order): the status write, selected by session id.\<close>

definition set_session_status :: "string \<Rightarrow> string \<Rightarrow> database \<Rightarrow> database" where
  "set_session_status sessionId new_status db =
     db\<lparr> checkoutSessions :=
           update_where (\<lambda>s. cs_id s = sessionId) (\<lambda>s. s\<lparr> cs_status := new_status \<rparr>)
             (checkoutSessions db) \<rparr>"

text \<open>Steps 6 and 7 and the returned value, once the remote contact id is known.\<close>

definition store_contact ::
  "int \<Rightarrow> string \<Rightarrow> string \<Rightarrow> string \<Rightarrow> bool \<Rightarrow> database \<Rightarrow> contact_result \<times> database" where
  "store_contact now userId sessionId zohoContactId' isUpdate' db =
     (let (link, links) = zohoAccountLink_upsert userId zohoContactId' now (zohoAccountLinks db);
          db1 = db\<lparr> zohoAccountLinks := links \<rparr>;
          db2 = set_session_status sessionId ''contact_created'' db1
      in (\<lparr> zohoContactId = zohoContactId', isUpdate = isUpdate', zohoLink = link,
             cr_message = (if isUpdate' then ''Zoho contact updated successfully''
                           else ''Zoho contact created successfully'') \<rparr>,
          db2))"

text \<open>
  The \<^verbatim>\<open>try\<close> block of \<^verbatim>\<open>createOrUpdateContact\<close>.  It returns what the block returns or
  throws, the store it leaves, and the requests it has sent to the remote service.
\<close>

definition createOrUpdateContact_try ::
  "remote \<Rightarrow> int \<Rightarrow> caller \<Rightarrow> contact_input \<Rightarrow> database
     \<Rightarrow> (exn + contact_result) \<times> database \<times> request list" where
  "createOrUpdateContact_try remote now ctx inp db =
     (case findFirst (\<lambda>s. cs_id s = ci_checkoutSessionId inp \<and> cs_userId s = principal ctx inp)
             (checkoutSessions db) of
        None \<Rightarrow> (Inl (TRPCError NOT_FOUND ''Checkout session not found''), db, [])
      | Some checkoutSession \<Rightarrow>
     (case cs_companyInfo checkoutSession of
        None \<Rightarrow> (Inl (TRPCError BAD_REQUEST ''Company information not found''), db, [])
      | Some companyInfo \<Rightarrow>
     if ci_requireAgreementSigned inp \<and>
        (case cs_agreement checkoutSession of
           None \<Rightarrow> True
         | Some agreement \<Rightarrow> agreement_status agreement \<noteq> ''completed'')
     then (Inl (TRPCError BAD_REQUEST ''Agreement must be signed before creating Zoho contact''),
           db, [])
     else
     (let existingZohoLink =
            findFirst (\<lambda>l. zl_userId l = principal ctx inp) (zohoAccountLinks db)
      in
     (case findFirst (\<lambda>u. user_id u = cs_userId checkoutSession) (users db) of
        None \<Rightarrow> (Inl (TRPCError INTERNAL_SERVER_ERROR ''User data not found''), db, [])
      | Some user \<Rightarrow>
     (let contactData = prepare_contactData checkoutSession companyInfo user
      in
      if (case existingZohoLink of None \<Rightarrow> False | Some l \<Rightarrow> zl_zohoUserId l \<noteq> [])
      then
        (let stored_id = (case existingZohoLink of None \<Rightarrow> [] | Some l \<Rightarrow> zl_zohoUserId l);
             sent = [PUT_Contacts stored_id contactData]
         in case updateZohoContact remote stored_id contactData of
              Inl err \<Rightarrow> (Inl err, db, sent)
            | Inr updateResponse \<Rightarrow>
                if \<not> truthy_prop updateResponse ''id'' then
                  (Inl (TRPCError INTERNAL_SERVER_ERROR ''Failed to update Zoho contact''), db, sent)
                else
                  (let (res, db') =
                         store_contact now (principal ctx inp) (ci_checkoutSessionId inp)
                           stored_id True db
                   in (Inr res, db', sent)))
      else
        (let sent = [POST_Contacts contactData]
         in case createZohoContact remote contactData of
              Inl err \<Rightarrow> (Inl err, db, sent)
            | Inr createResponse \<Rightarrow>
                if \<not> truthy_prop createResponse ''id'' then
                  (Inl (TRPCError INTERNAL_SERVER_ERROR
                          ''Failed to get contact ID from Zoho response''), db, sent)
                else
                  (case string_column (nullish (get_prop createResponse ''id'') JNull) of
                     Inl err \<Rightarrow> (Inl err, db, sent)
                   | Inr new_id \<Rightarrow>
                       (let (res, db') =
                              store_contact now (principal ctx inp) (ci_checkoutSessionId inp)
                                new_id False db
                        in (Inr res, db', sent)))))))))"

text \<open>
  The \<^verbatim>\<open>catch\<close> block: a \<^verbatim>\<open>TRPCError\<close> is thrown again, any other error is wrapped as
  \<^verbatim>\<open>INTERNAL_SERVER_ERROR\<close> with its own message.
\<close>

fun createOrUpdateContact_catch :: "exn \<Rightarrow> exn" where
  "createOrUpdateContact_catch (TRPCError c m) = TRPCError c m"
| "createOrUpdateContact_catch (Error m) = TRPCError INTERNAL_SERVER_ERROR m"

definition createOrUpdateContact ::
  "remote \<Rightarrow> int \<Rightarrow> caller \<Rightarrow> contact_input \<Rightarrow> database
     \<Rightarrow> (exn + contact_result) \<times> database \<times> request list" where
  "createOrUpdateContact remote now ctx inp db =
     (case createOrUpdateContact_try remote now ctx inp db of
        (Inl err, db', sent) \<Rightarrow> (Inl (createOrUpdateContact_catch err), db', sent)
      | (Inr res, db', sent) \<Rightarrow> (Inr res, db', sent))"

record sales_order_input =
  soi_checkoutSessionId :: string
  soi_requirePaymentConfirmed :: bool
  soi_requireContactCreated :: bool

record sales_order_result =
  zohoSalesOrderId :: string
  sor_zohoContactId :: string
  sor_checkoutSessionId :: string

text \<open>Step 6 of \<^verbatim>\<open>createSalesOrder\<close>: the payload for the remote sales order.\<close>

definition prepare_salesOrderData :: "CheckoutSession \<Rightarrow> string \<Rightarrow> rat \<Rightarrow> ZohoSalesOrderData" where
  "prepare_salesOrderData checkoutSession contact orderAmount =
     \<lparr> Contact_Name = contact,
       Subject = nullish (cs_module checkoutSession) ''Zoho Integration'' @ '' - ''
                   @ cs_id checkoutSession,
       Deal_Name = nullish (cs_module checkoutSession) ''Zoho Integration'' @ '' Deal'',
       Grand_Total = orderAmount,
       Sub_Total = orderAmount,
       Tax_Amount = 0,
       Discount = 0,
       Adjustment = 0,
       so_Status = ''Draft'',
       so_Description = ''Sales order created from checkout session: '' @ cs_id checkoutSession,
       Terms_and_Conditions = ''Payment processed via Stripe. Agreement signed via DocuSign.'',
       so_trigger = [''approval'', ''workflow''] \<rparr>"

text \<open>
  Step 9: the local sales-order row gets the remote id, by update when the session has a
  row and by insertion otherwise.
\<close>

definition store_salesOrder ::
  "SalesOrder option \<Rightarrow> string \<Rightarrow> string \<Rightarrow> rat \<Rightarrow> SalesOrder list \<Rightarrow> SalesOrder list" where
  "store_salesOrder existingSalesOrder sessionId remote_id orderAmount rows =
     (case existingSalesOrder of
        Some existing \<Rightarrow>
          update_where (\<lambda>r. so_checkoutSessionId r = sessionId)
            (\<lambda>r. r\<lparr> so_zohoSalesOrderId := Some remote_id \<rparr>) rows
      | None \<Rightarrow>
          rows @ [\<lparr> so_checkoutSessionId = sessionId, so_zohoSalesOrderId = Some remote_id,
                    so_amount = orderAmount, so_currency = ''USD'' \<rparr>])"

definition createSalesOrder_try ::
  "remote \<Rightarrow> caller \<Rightarrow> sales_order_input \<Rightarrow> database
     \<Rightarrow> (exn + sales_order_result) \<times> database \<times> request list" where
  "createSalesOrder_try remote ctx inp db =
     (case findFirst (\<lambda>s. cs_id s = soi_checkoutSessionId inp \<and> cs_userId s = session_user_id ctx)
             (checkoutSessions db) of
        None \<Rightarrow> (Inl (TRPCError NOT_FOUND ''Checkout session not found''), db, [])
      | Some checkoutSession \<Rightarrow>
     if soi_requirePaymentConfirmed inp \<and>
        cs_status checkoutSession \<noteq> ''payment_completed'' \<and>
        cs_status checkoutSession \<noteq> ''contact_created''
     then (Inl (TRPCError BAD_REQUEST ''Payment must be confirmed before creating sales order''),
           db, [])
     else
     if soi_requireContactCreated inp \<and> cs_status checkoutSession \<noteq> ''contact_created''
     then (Inl (TRPCError BAD_REQUEST ''Contact must be created before creating sales order''),
           db, [])
     else
     (case findFirst (\<lambda>l. zl_userId l = session_user_id ctx) (zohoAccountLinks db) of
        None \<Rightarrow> (Inl (TRPCError NOT_FOUND ''Zoho contact not found''), db, [])
      | Some zohoLink' \<Rightarrow>
     if zl_zohoUserId zohoLink' = []
     then (Inl (TRPCError NOT_FOUND ''Zoho contact not found''), db, [])
     else
     (let existingSalesOrder =
            findFirst (\<lambda>r. so_checkoutSessionId r = soi_checkoutSessionId inp) (salesOrders db);
          orderAmount = (case existingSalesOrder of None \<Rightarrow> 0 | Some r \<Rightarrow> so_amount r);
          salesOrderData =
            prepare_salesOrderData checkoutSession (zl_zohoUserId zohoLink') orderAmount;
          sent = [POST_Sales_Orders salesOrderData]
      in case createZohoSalesOrder remote salesOrderData of
           Inl err \<Rightarrow> (Inl err, db, sent)
         | Inr createResponse \<Rightarrow>
             if \<not> truthy_prop createResponse ''id'' then
               (Inl (TRPCError INTERNAL_SERVER_ERROR
                       ''Failed to get sales order ID from Zoho response''), db, sent)
             else
               (let db1 = set_session_status (soi_checkoutSessionId inp) ''sales_order_created'' db
                in case string_column (nullish (get_prop createResponse ''id'') JNull) of
                     Inl err \<Rightarrow> (Inl err, db1, sent)
                   | Inr remote_id \<Rightarrow>
                       (Inr \<lparr> zohoSalesOrderId = remote_id,
                              sor_zohoContactId = zl_zohoUserId zohoLink',
                              sor_checkoutSessionId = soi_checkoutSessionId inp \<rparr>,
                        db1\<lparr> salesOrders :=
                               store_salesOrder existingSalesOrder (soi_checkoutSessionId inp)
                                 remote_id orderAmount (salesOrders db1) \<rparr>,
                        sent)))))"

text \<open>
  The \<^verbatim>\<open>catch\<close> block: a \<^verbatim>\<open>TRPCError\<close> is thrown again, any other error is logged and
  replaced by a fixed \<^verbatim>\<open>INTERNAL_SERVER_ERROR\<close>.
\<close>

fun createSalesOrder_catch :: "exn \<Rightarrow> exn" where
  "createSalesOrder_catch (TRPCError c m) = TRPCError c m"
| "createSalesOrder_catch (Error m) =
     TRPCError INTERNAL_SERVER_ERROR ''Failed to create Zoho sales order''"

definition createSalesOrder ::
  "remote \<Rightarrow> caller \<Rightarrow> sales_order_input \<Rightarrow> database
     \<Rightarrow> (exn + sales_order_result) \<times> database \<times> request list" where
  "createSalesOrder remote ctx inp db =
     (case createSalesOrder_try remote ctx inp db of
        (Inl err, db', sent) \<Rightarrow> (Inl (createSalesOrder_catch err), db', sent)
      | (Inr res, db', sent) \<Rightarrow> (Inr res, db', sent))"

section \<open>The signup link issuer and validator\<close>

definition chars :: string where
  "chars = ''ABCDEFGHIJKLMNOPQRSTUVWXYZ0123456789''"

text \<open>\<^verbatim>\<open>String.prototype.charAt\<close>: the empty string outside the string.\<close>

definition charAt :: "string \<Rightarrow> int \<Rightarrow> string" where
  "charAt s i = (if 0 \<le> i \<and> i < int (length s) then [s ! nat i] else [])"

text \<open>
  The loop of \<^verbatim>\<open>generateSecureLoginCode\<close>.  \<open>random i\<close> is what the call of
  \<^verbatim>\<open>Math.random()\<close> in round \<open>i\<close> returns; the product with the alphabet's length is taken
  exactly.
\<close>

function generateSecureLoginCode_loop :: "(nat \<Rightarrow> real) \<Rightarrow> nat \<Rightarrow> string \<Rightarrow> string" where
  "generateSecureLoginCode_loop random i result =
     (if i < 12 then
        generateSecureLoginCode_loop random (i + 1)
          (result @ charAt chars \<lfloor>random i * real (length chars)\<rfloor>)
      else result)"
  by pat_completeness auto
termination
  by (relation "measure (\<lambda>(random, i, result). 12 - i)") auto

definition generateSecureLoginCode :: "(nat \<Rightarrow> real) \<Rightarrow> string" where
  "generateSecureLoginCode random = generateSecureLoginCode_loop random 0 []"

record signup_input =
  si_zoho_id :: string
  expiresInDays :: int

record signup_result =
  signupLink :: SignupLink
  loginUrl :: string

text \<open>
  \<^verbatim>\<open>expiresAt.setDate(expiresAt.getDate() + days)\<close> for a whole number of days on a clock
  without daylight-saving shifts: a day is 86400000 milliseconds.
\<close>

definition add_days :: "int \<Rightarrow> int \<Rightarrow> int" where
  "add_days t days = t + days * 86400000"

text \<open>
  \<^verbatim>\<open>signupLink.create\<close>: the table has a primary key on the id and a unique index on the
  login code; a row that breaks either makes the client throw and nothing is stored.
\<close>

definition signupLink_create :: "SignupLink \<Rightarrow> SignupLink list \<Rightarrow> exn + SignupLink list" where
  "signupLink_create row rows =
     (if list_ex (\<lambda>l. sl_id l = sl_id row \<or> login_code l = login_code row) rows
      then Inl (Error ''Unique constraint failed'')
      else Inr (rows @ [row]))"

text \<open>
  \<open>fresh_id\<close> is the id the database client generates for the new row, \<open>app_url\<close> the
  configured \<^verbatim>\<open>NEXT_PUBLIC_APP_URL\<close>.
\<close>

definition generateSignupLink_try ::
  "remote \<Rightarrow> (nat \<Rightarrow> real) \<Rightarrow> int \<Rightarrow> string \<Rightarrow> string \<Rightarrow> signup_input \<Rightarrow> database
     \<Rightarrow> (exn + signup_result) \<times> database" where
  "generateSignupLink_try remote random now fresh_id app_url inp db =
     (case getZohoContact remote (si_zoho_id inp) of
        Inl err \<Rightarrow> (Inl err, db)
      | Inr contact' \<Rightarrow>
          if \<not> truthy contact' then (Inl (TRPCError NOT_FOUND ''Zoho contact not found''), db)
          else
            (let loginCode = generateSecureLoginCode random;
                 expiresAt = add_days now (expiresInDays inp);
                 row = \<lparr> sl_id = fresh_id, zoho_id = si_zoho_id inp, login_code = loginCode,
                         expires_at = expiresAt, usage_limit = 1, usage_count = 0,
                         is_active = True, created_at = now, updated_at = now \<rparr>
             in case signupLink_create row (signupLinks db) of
                  Inl err \<Rightarrow> (Inl err, db)
                | Inr rows \<Rightarrow>
                    (Inr \<lparr> signupLink = row,
                           loginUrl = app_url @ ''/magic-link/'' @ si_zoho_id inp @ ''/'' @ loginCode \<rparr>,
                     db\<lparr> signupLinks := rows \<rparr>)))"

fun generateSignupLink_catch :: "exn \<Rightarrow> exn" where
  "generateSignupLink_catch (TRPCError c m) = TRPCError c m"
| "generateSignupLink_catch (Error m) =
     TRPCError INTERNAL_SERVER_ERROR ''Failed to generate signup link''"

definition generateSignupLink ::
  "remote \<Rightarrow> (nat \<Rightarrow> real) \<Rightarrow> int \<Rightarrow> string \<Rightarrow> string \<Rightarrow> signup_input \<Rightarrow> database
     \<Rightarrow> (exn + signup_result) \<times> database" where
  "generateSignupLink remote random now fresh_id app_url inp db =
     (case generateSignupLink_try remote random now fresh_id app_url inp db of
        (Inl err, db') \<Rightarrow> (Inl (generateSignupLink_catch err), db')
      | (Inr res, db') \<Rightarrow> (Inr res, db'))"

record validate_input =
  vi_zoho_id :: string
  vi_login_code :: string

record validate_result =
  vr_signupLink :: SignupLink
  vr_contact :: json

definition validateSignupLink_try ::
  "remote \<Rightarrow> int \<Rightarrow> validate_input \<Rightarrow> database \<Rightarrow> (exn + validate_result) \<times> database" where
  "validateSignupLink_try remote now inp db =
     (case findFirst (\<lambda>l. zoho_id l = vi_zoho_id inp \<and> login_code l = vi_login_code inp)
             (signupLinks db) of
        None \<Rightarrow> (Inl (TRPCError NOT_FOUND ''Signup link not found''), db)
      | Some link \<Rightarrow>
          if expires_at link < now then
            (Inl (TRPCError BAD_REQUEST ''Signup link has expired''),
             db\<lparr> signupLinks :=
                   update_where (\<lambda>l. sl_id l = sl_id link)
                     (\<lambda>l. l\<lparr> is_active := False, updated_at := now \<rparr>) (signupLinks db) \<rparr>)
          else if usage_count link \<ge> usage_limit link then
            (Inl (TRPCError BAD_REQUEST ''Signup link has exceeded usage limit''), db)
          else
            (case getZohoContact remote (zoho_id link) of
               Inl err \<Rightarrow> (Inl err, db)
             | Inr contact' \<Rightarrow>
                 if \<not> truthy contact' then
                   (Inl (TRPCError NOT_FOUND ''Zoho contact not found''), db)
                 else (Inr \<lparr> vr_signupLink = link, vr_contact = contact' \<rparr>, db)))"

fun validateSignupLink_catch :: "exn \<Rightarrow> exn" where
  "validateSignupLink_catch (TRPCError c m) = TRPCError c m"
| "validateSignupLink_catch (Error m) =
     TRPCError INTERNAL_SERVER_ERROR ''Failed to validate signup link''"

definition validateSignupLink ::
  "remote \<Rightarrow> int \<Rightarrow> validate_input \<Rightarrow> database \<Rightarrow> (exn + validate_result) \<times> database" where
  "validateSignupLink remote now inp db =
     (case validateSignupLink_try remote now inp db of
        (Inl err, db') \<Rightarrow> (Inl (validateSignupLink_catch err), db')
      | (Inr res, db') \<Rightarrow> (Inr res, db'))"

section \<open>The aggregated profile read\<close>







section \<open>The registration endpoint\<close>

record registration =
  reg_email :: string
  reg_password :: string
  reg_name :: "string option"

text \<open>
  \<^verbatim>\<open>registrationSchema.safeParse\<close>: the body is an object whose \<^verbatim>\<open>email\<close> is a string in
  e-mail format, whose \<^verbatim>\<open>password\<close> is a string of at least 8 characters and whose
  \<^verbatim>\<open>name\<close> is absent or a string.  The format test belongs to the validation library and
  is the parameter \<open>is_email\<close>.
\<close>

definition registrationSchema :: "(string \<Rightarrow> bool) \<Rightarrow> json \<Rightarrow> registration option" where
  "registrationSchema is_email data =
     (case data of
        JObj kvs \<Rightarrow>
          (case (get_prop data ''email'', get_prop data ''password'') of
             (Some (JStr e), Some (JStr pw)) \<Rightarrow>
               if is_email e \<and> 8 \<le> length pw then
                 (case get_prop data ''name'' of
                    None \<Rightarrow> Some \<lparr> reg_email = e, reg_password = pw, reg_name = None \<rparr>
                  | Some (JStr n) \<Rightarrow>
                      Some \<lparr> reg_email = e, reg_password = pw, reg_name = Some n \<rparr>
                  | Some other \<Rightarrow> None)
               else None
           | other \<Rightarrow> None)
      | other \<Rightarrow> None)"

text \<open>The answer of the endpoint: the status and either the error text or the new user.\<close>

record public_user =
  pu_id :: string
  pu_email :: "string option"
  pu_name :: "string option"

record http_response =
  http_status :: nat
  http_error :: "string option"
  http_user :: "public_user option"

text \<open>
  \<^verbatim>\<open>db.user.create\<close>: the id is the primary key and the e-mail address is unique (it is
  the key of \<^verbatim>\<open>findUnique\<close>).
\<close>

definition user_create :: "User \<Rightarrow> User list \<Rightarrow> exn + User list" where
  "user_create row rows =
     (if list_ex (\<lambda>u. user_id u = user_id row \<or> user_email u = user_email row) rows
      then Inl (Error ''Unique constraint failed'')
      else Inr (rows @ [row]))"

text \<open>
  The handler \<^verbatim>\<open>POST\<close>.  \<open>req_body\<close> is what \<^verbatim>\<open>req.json()\<close> settles to, \<open>hash\<close> the
  password hash with its cost, \<open>fresh_id\<close> the id generated for the new row.
\<close>

definition POST_register ::
  "(string \<Rightarrow> bool) \<Rightarrow> (string \<Rightarrow> nat \<Rightarrow> string) \<Rightarrow> string \<Rightarrow> string + json \<Rightarrow> database
     \<Rightarrow> http_response \<times> database" where
  "POST_register is_email hash fresh_id req_body db =
     (case req_body of
        Inl parse_failure \<Rightarrow>
          (\<lparr> http_status = 500, http_error = Some ''Failed to create user'', http_user = None \<rparr>, db)
      | Inr data \<Rightarrow>
     (case registrationSchema is_email data of
        None \<Rightarrow> (\<lparr> http_status = 400, http_error = Some ''Invalid input'', http_user = None \<rparr>, db)
      | Some input \<Rightarrow>
     (case findFirst (\<lambda>u. user_email u = Some (reg_email input)) (users db) of
        Some existingUser \<Rightarrow>
          (\<lparr> http_status = 400, http_error = Some ''User already exists'', http_user = None \<rparr>, db)
      | None \<Rightarrow>
     (let hashedPassword = hash (reg_password input) 12;
          user = \<lparr> user_id = fresh_id, user_email = Some (reg_email input),
                   user_password = Some hashedPassword, user_name = reg_name input \<rparr>
      in case user_create user (users db) of
           Inl err \<Rightarrow>
             (\<lparr> http_status = 500, http_error = Some ''Failed to create user'',
                http_user = None \<rparr>, db)
         | Inr rows \<Rightarrow>
             (\<lparr> http_status = 200, http_error = None,
                http_user = Some \<lparr> pu_id = user_id user, pu_email = user_email user,
                                   pu_name = user_name user \<rparr> \<rparr>,
              db\<lparr> users := rows \<rparr>)))))"

section \<open>Concrete stores and remote services\<close>

text \<open>A remote service that answers every request with the contact \<^verbatim>\<open>{"id": "Z1"}\<close>.\<close>

definition remote_ok :: remote where
  "remote_ok req = Inr \<lparr> ok = True, statusText = ''OK'', body = Inr (JObj [(''id'', JStr ''Z1'')]) \<rparr>"

text \<open>A remote service that cannot be reached.\<close>

definition remote_down :: remote where
  "remote_down req = Inl ''fetch failed''"

definition empty_db :: database where
  "empty_db = \<lparr> users = [], checkoutSessions = [], zohoAccountLinks = [], salesOrders = [],
                signupLinks = [] \<rparr>"

text \<open>
  The link that \<^verbatim>\<open>generateSignupLink\<close> issues at time 1000 for the contact \<^verbatim>\<open>Z1\<close>, with 7
  days to live, when every random draw is 0, and the store that then holds it.
\<close>

definition issued_link :: SignupLink where
  "issued_link =
     \<lparr> sl_id = ''L1'', zoho_id = ''Z1'', login_code = ''AAAAAAAAAAAA'', expires_at = 604801000,
       usage_limit = 1, usage_count = 0, is_active = True, created_at = 1000,
       updated_at = 1000 \<rparr>"

definition issued_db :: database where
  "issued_db = empty_db\<lparr> signupLinks := [issued_link] \<rparr>"

definition issued_input :: validate_input where
  "issued_input = \<lparr> vi_zoho_id = ''Z1'', vi_login_code = ''AAAAAAAAAAAA'' \<rparr>"

text \<open>A random source whose every draw is 0.\<close>

definition random_zero :: "nat \<Rightarrow> real" where
  "random_zero i = 0"

text \<open>
  A store with one user and one checkout session of hers, in a given status, with company
  information and a completed agreement; the caller is that user.
\<close>

definition ann :: User where
  "ann = \<lparr> user_id = ''u1'', user_email = Some ''ann@example.com'', user_password = None,
           user_name = Some ''Ann Lee'' \<rparr>"

definition acme :: CompanyInfo where
  "acme = \<lparr> contactName = Some ''Ann Lee'', email = Some ''ann@acme.example'', phone = None,
            companyName = Some ''Acme'', address = None, city = None, state = None,
            zipCode = None, country = None, industry = None \<rparr>"

definition session_s1 :: "string \<Rightarrow> CheckoutSession" where
  "session_s1 st = \<lparr> cs_id = ''s1'', cs_userId = ''u1'', cs_module = Some ''Scanner'',
                     cs_status = st, cs_companyInfo = Some acme,
                     cs_agreement = Some \<lparr> agreement_status = ''completed'' \<rparr> \<rparr>"

definition shop_db :: "string \<Rightarrow> database" where
  "shop_db st = empty_db\<lparr> users := [ann], checkoutSessions := [session_s1 st] \<rparr>"

definition ctx_ann :: caller where
  "ctx_ann = \<lparr> session_user_id = ''u1'' \<rparr>"

definition contact_call :: contact_input where
  "contact_call = \<lparr> ci_userId = None, ci_checkoutSessionId = ''s1'',
                     ci_requireAgreementSigned = True \<rparr>"

text \<open>The payload the contact operation builds for that session.\<close>

definition ann_contactData :: ZohoContactData where
  "ann_contactData =
     \<lparr> Last_Name = ''Lee'', First_Name = ''Ann'', Email = ''ann@acme.example'', Phone = [],
       Company = ''Acme'', Mailing_Street = [], Mailing_City = [], Mailing_State = [],
       Mailing_Zip = [], Mailing_Country = ''US'', Industry = [],
       Description = ''Created via checkout session: s1'', Lead_Source = ''Website Checkout'',
       trigger = [''approval'', ''workflow''] \<rparr>"

text \<open>The store after the first successful contact call at time 1000.\<close>

definition linked_db :: database where
  "linked_db = (shop_db ''contact_created'')
     \<lparr> zohoAccountLinks := [\<lparr> zl_userId = ''u1'', zl_zohoUserId = ''Z1'', zl_updatedAt = 1000 \<rparr>] \<rparr>"

definition sales_call :: sales_order_input where
  "sales_call = \<lparr> soi_checkoutSessionId = ''s1'', soi_requirePaymentConfirmed = True,
                   soi_requireContactCreated = True \<rparr>"

text \<open>The payload the sales-order operation builds for that session and the contact \<^verbatim>\<open>Z1\<close>.\<close>

definition s1_salesOrderData :: ZohoSalesOrderData where
  "s1_salesOrderData =
     \<lparr> Contact_Name = ''Z1'', Subject = ''Scanner - s1'', Deal_Name = ''Scanner Deal'',
       Grand_Total = 0, Sub_Total = 0, Tax_Amount = 0, Discount = 0, Adjustment = 0,
       so_Status = ''Draft'',
       so_Description = ''Sales order created from checkout session: s1'',
       Terms_and_Conditions = ''Payment processed via Stripe. Agreement signed via DocuSign.'',
       so_trigger = [''approval'', ''workflow''] \<rparr>"

text \<open>Another authenticated caller, and her contact call that names the first user.\<close>

definition ctx_eve :: caller where
  "ctx_eve = \<lparr> session_user_id = ''u2'' \<rparr>"

definition contact_call_naming_ann :: contact_input where
  "contact_call_naming_ann = \<lparr> ci_userId = Some ''u1'', ci_checkoutSessionId = ''s1'',
                                ci_requireAgreementSigned = True \<rparr>"

text \<open>A session without company information, and one whose agreement is still pending.\<close>

definition no_company_db :: database where
  "no_company_db =
     empty_db\<lparr> users := [ann],
               checkoutSessions := [(session_s1 ''payment_completed'')\<lparr> cs_companyInfo := None \<rparr>] \<rparr>"

definition pending_db :: database where
  "pending_db =
     empty_db\<lparr> users := [ann],
               checkoutSessions :=
                 [(session_s1 ''payment_completed'')
                    \<lparr> cs_agreement := Some \<lparr> agreement_status = ''pending'' \<rparr> \<rparr>] \<rparr>"

text \<open>Whether the store holds a sales-order row of the session that carries a remote id.\<close>

definition has_remote_sales_order :: "string \<Rightarrow> database \<Rightarrow> bool" where
  "has_remote_sales_order sessionId db =
     list_ex (\<lambda>r. so_checkoutSessionId r = sessionId \<and> so_zohoSalesOrderId r \<noteq> None)
       (salesOrders db)"





text \<open>
  Stand-ins, in the concrete runs, for the library's e-mail format test (the address
  contains an at sign) and for the password hash.
\<close>

definition contains_at :: "string \<Rightarrow> bool" where
  "contains_at s = (CHR ''@'' \<in> set s)"

definition example_hash :: "string \<Rightarrow> nat \<Rightarrow> string" where
  "example_hash password cost = ''hashed:'' @ password"

text \<open>
  Registration bodies: the address of the stored user with a good and with a short
  password, and an unused address.
\<close>

definition body_ann :: json where
  "body_ann = JObj [(''email'', JStr ''ann@example.com''), (''password'', JStr ''correct horse'')]"

definition body_ann_short :: json where
  "body_ann_short = JObj [(''email'', JStr ''ann@example.com''), (''password'', JStr ''short'')]"

definition body_bob :: json where
  "body_bob = JObj [(''email'', JStr ''bob@example.com''), (''password'', JStr ''correct horse''),
                    (''name'', JStr ''Bob'')]"

section \<open>Properties of the adapter\<close>

lemma handleZohoApiResponse_TRPCError_code:
  "handleZohoApiResponse r = Inl (TRPCError c m) \<Longrightarrow> c = INTERNAL_SERVER_ERROR"
  by (auto simp: handleZohoApiResponse_def Let_def split: if_splits sum.splits)

lemma handleZohoApiResponse_returns:
  "handleZohoApiResponse r = Inr d \<Longrightarrow> ok r \<and> body r = Inr d \<and> truthy d \<and> typeof_object d"
  by (auto simp: handleZohoApiResponse_def Let_def split: if_splits sum.splits)

lemma fetch_and_handle_TRPCError_code:
  "fetch_and_handle remote q = Inl (TRPCError c m) \<Longrightarrow> c = INTERNAL_SERVER_ERROR"
  by (auto simp: fetch_and_handle_def split: sum.splits dest: handleZohoApiResponse_TRPCError_code)

lemma rethrow_or_error:
  assumes "rethrow_or fallback r = Inl e"
  shows "r = Inl e \<and> instanceof_TRPCError e"
  using assms by (auto simp: rethrow_or_def split: sum.splits if_splits)

lemma getZohoContact_error:
  assumes "getZohoContact remote zid = Inl e"
  shows "\<exists>m. e = TRPCError INTERNAL_SERVER_ERROR m"
proof -
  from assms have r: "fetch_and_handle remote (GET_Contacts zid) = Inl e"
    and t: "instanceof_TRPCError e"
    by (auto simp: getZohoContact_def dest: rethrow_or_error)
  from t obtain c m where e: "e = TRPCError c m" by (cases e) auto
  with r have "c = INTERNAL_SERVER_ERROR" by (auto dest: fetch_and_handle_TRPCError_code)
  with e show ?thesis by simp
qed

text \<open>
  What the response handler does on the three kinds of answers it classifies: a response
  that is not \<^verbatim>\<open>ok\<close> raises \<^verbatim>\<open>Zoho API error: \<close> followed by the message of a structured
  error body, or by the status text when the body is not structured or not JSON; an
  \<^verbatim>\<open>ok\<close> response whose JSON value is falsy or no object raises the invalid-format error;
  an \<^verbatim>\<open>ok\<close> response with an object or array is returned as it is.
\<close>

lemma handleZohoApiResponse_classified:
  "\<not> ok r \<Longrightarrow> body r = Inr d \<Longrightarrow> isZohoErrorResponse d \<Longrightarrow> get_prop d ''message'' = Some m \<Longrightarrow>
     handleZohoApiResponse r =
       Inl (TRPCError INTERNAL_SERVER_ERROR (''Zoho API error: '' @ js_toString m))"
  "\<not> ok r \<Longrightarrow> body r = Inr d \<Longrightarrow> \<not> isZohoErrorResponse d \<Longrightarrow>
     handleZohoApiResponse r =
       Inl (TRPCError INTERNAL_SERVER_ERROR (''Zoho API error: '' @ statusText r))"
  "\<not> ok r \<Longrightarrow> body r = Inl p \<Longrightarrow>
     handleZohoApiResponse r =
       Inl (TRPCError INTERNAL_SERVER_ERROR (''Zoho API error: '' @ statusText r))"
  "ok r \<Longrightarrow> body r = Inr d \<Longrightarrow> \<not> truthy d \<or> \<not> typeof_object d \<Longrightarrow>
     handleZohoApiResponse r =
       Inl (TRPCError INTERNAL_SERVER_ERROR ''Invalid response format from Zoho API'')"
  "ok r \<Longrightarrow> body r = Inr d \<Longrightarrow> truthy d \<Longrightarrow> typeof_object d \<Longrightarrow> handleZohoApiResponse r = Inr d"
  by (auto simp: handleZohoApiResponse_def Let_def errorData_message_def)

text \<open>
  C7.  The handler does not raise the invalid-format error for every \<^verbatim>\<open>ok\<close> response
  whose body is no well-formed object: when the body of an \<^verbatim>\<open>ok\<close> response is not JSON at
  all, \<^verbatim>\<open>response.json()\<close> rejects outside any \<^verbatim>\<open>try\<close> block, and the handler throws the
  parser's own error, which is no \<^verbatim>\<open>TRPCError\<close>.
\<close>

theorem handleZohoApiResponse_ok_body_not_json:
  "handleZohoApiResponse
     \<lparr> ok = True, statusText = ''OK'', body = Inl ''Unexpected end of JSON input'' \<rparr>
   = Inl (Error ''Unexpected end of JSON input'')"
  by (simp add: handleZohoApiResponse_def)

text \<open>So the error raised there is not the invalid-format error.\<close>

theorem handleZohoApiResponse_ok_body_not_json_witness:
  "handleZohoApiResponse
     \<lparr> ok = True, statusText = ''OK'', body = Inl ''Unexpected end of JSON input'' \<rparr>
   \<noteq> Inl (TRPCError INTERNAL_SERVER_ERROR ''Invalid response format from Zoho API'')"
  using handleZohoApiResponse_ok_body_not_json by simp

section \<open>Properties of the signup link validator\<close>

lemma findFirst_update_where:
  assumes "findFirst wh rows = Some r"
      and "\<And>x. wh (data x) = wh x"
  shows "findFirst wh (update_where sel data rows) = Some (if sel r then data r else r)"
  using assms unfolding findFirst_def update_where_def
  by (induction rows) (auto split: if_splits)

lemma usage_count_update_where:
  "map usage_count (update_where sel (\<lambda>l. l\<lparr> is_active := a, updated_at := t \<rparr>) rows)
   = map usage_count rows"
  by (induction rows) (auto simp: update_where_def)

lemma validateSignupLink_usage_count:
  "map usage_count (signupLinks (snd (validateSignupLink remote now inp db)))
   = map usage_count (signupLinks db)"
  by (auto simp: validateSignupLink_def validateSignupLink_try_def usage_count_update_where
      split: option.splits sum.splits)

lemma validateSignupLink_limit_only:
  assumes "fst (validateSignupLink remote now inp db)
           = Inl (TRPCError BAD_REQUEST ''Signup link has exceeded usage limit'')"
  shows "snd (validateSignupLink remote now inp db) = db \<and>
         (\<exists>link. findFirst (\<lambda>l. zoho_id l = vi_zoho_id inp \<and> login_code l = vi_login_code inp)
                    (signupLinks db) = Some link
                \<and> \<not> expires_at link < now \<and> usage_limit link \<le> usage_count link)"
  using assms
  by (auto simp: validateSignupLink_def validateSignupLink_try_def
      split: option.splits if_splits sum.splits dest!: getZohoContact_error)

text \<open>
  C4.  When the link that matches the remote id and the code has its expiry in the past,
  validation fails with the expired error, and the matching link is afterwards stored
  with its active flag false.  When validation fails with the usage-limit error, the
  store is left as it was, the active flag with it; and that is the failure of an
  unexpired link whose usage count has reached its limit.
\<close>

theorem validateSignupLink_expired_deactivates:
  assumes "findFirst (\<lambda>l. zoho_id l = vi_zoho_id inp \<and> login_code l = vi_login_code inp)
             (signupLinks db) = Some link"
  shows "(expires_at link < now \<longrightarrow>
            fst (validateSignupLink remote now inp db)
              = Inl (TRPCError BAD_REQUEST ''Signup link has expired'') \<and>
            findFirst (\<lambda>l. zoho_id l = vi_zoho_id inp \<and> login_code l = vi_login_code inp)
              (signupLinks (snd (validateSignupLink remote now inp db)))
              = Some (link\<lparr> is_active := False, updated_at := now \<rparr>)) \<and>
         (\<not> expires_at link < now \<and> usage_limit link \<le> usage_count link \<longrightarrow>
            validateSignupLink remote now inp db
              = (Inl (TRPCError BAD_REQUEST ''Signup link has exceeded usage limit''), db)) \<and>
         (fst (validateSignupLink remote now inp db)
              = Inl (TRPCError BAD_REQUEST ''Signup link has exceeded usage limit'') \<longrightarrow>
            snd (validateSignupLink remote now inp db) = db)"
proof (intro conjI impI)
  assume "expires_at link < now"
  with assms
  show "fst (validateSignupLink remote now inp db)
          = Inl (TRPCError BAD_REQUEST ''Signup link has expired'')"
    by (simp add: validateSignupLink_def validateSignupLink_try_def)
next
  assume expired: "expires_at link < now"
  have "findFirst (\<lambda>l. zoho_id l = vi_zoho_id inp \<and> login_code l = vi_login_code inp)
          (update_where (\<lambda>l. sl_id l = sl_id link)
             (\<lambda>l. l\<lparr> is_active := False, updated_at := now \<rparr>) (signupLinks db))
        = Some (link\<lparr> is_active := False, updated_at := now \<rparr>)"
    using assms by (subst findFirst_update_where [where r = link]) simp_all
  with assms expired
  show "findFirst (\<lambda>l. zoho_id l = vi_zoho_id inp \<and> login_code l = vi_login_code inp)
          (signupLinks (snd (validateSignupLink remote now inp db)))
        = Some (link\<lparr> is_active := False, updated_at := now \<rparr>)"
    by (simp add: validateSignupLink_def validateSignupLink_try_def)
next
  assume "\<not> expires_at link < now \<and> usage_limit link \<le> usage_count link"
  with assms
  show "validateSignupLink remote now inp db
          = (Inl (TRPCError BAD_REQUEST ''Signup link has exceeded usage limit''), db)"
    by (simp add: validateSignupLink_def validateSignupLink_try_def)
next
  assume "fst (validateSignupLink remote now inp db)
            = Inl (TRPCError BAD_REQUEST ''Signup link has exceeded usage limit'')"
  then show "snd (validateSignupLink remote now inp db) = db"
    by (simp add: validateSignupLink_limit_only)
qed

text \<open>
  The theorem at the issued link: validated after its expiry it is deactivated, and with
  its one use already counted it fails on the limit and stays active.
\<close>

theorem validateSignupLink_expired_deactivates_witness:
  "fst (validateSignupLink remote_ok 604801001 issued_input issued_db)
     = Inl (TRPCError BAD_REQUEST ''Signup link has expired'') \<and>
   map is_active (signupLinks (snd (validateSignupLink remote_ok 604801001 issued_input issued_db)))
     = [False] \<and>
   validateSignupLink remote_ok 2000 issued_input
       (empty_db\<lparr> signupLinks := [issued_link\<lparr> usage_count := 1 \<rparr>] \<rparr>)
     = (Inl (TRPCError BAD_REQUEST ''Signup link has exceeded usage limit''),
        empty_db\<lparr> signupLinks := [issued_link\<lparr> usage_count := 1 \<rparr>] \<rparr>)"
  using validateSignupLink_expired_deactivates
          [of issued_input issued_db issued_link 604801001 remote_ok]
        validateSignupLink_expired_deactivates
          [of issued_input "empty_db\<lparr> signupLinks := [issued_link\<lparr> usage_count := 1 \<rparr>] \<rparr>"
              "issued_link\<lparr> usage_count := 1 \<rparr>" 2000 remote_ok]
  by (simp add: findFirst_def issued_input_def issued_db_def issued_link_def empty_db_def
        validateSignupLink_def validateSignupLink_try_def update_where_def)

lemma generateSecureLoginCode_random_zero:
  "generateSecureLoginCode random_zero = ''AAAAAAAAAAAA''"
  by (simp add: generateSecureLoginCode_def chars_def charAt_def random_zero_def)

lemma getZohoContact_remote_ok: "getZohoContact remote_ok z = Inr (JObj [(''id'', JStr ''Z1'')])"
  by (simp add: getZohoContact_def rethrow_or_def fetch_and_handle_def remote_ok_def
        handleZohoApiResponse_def)

text \<open>
  C1.  A link is issued with usage limit 1.  The first validation with the matching remote
  id and code succeeds, but it leaves the store as it was, the usage count at 0 and not
  at 1; the second validation then succeeds as the first did, and does not fail on the
  usage limit.
\<close>

theorem validateSignupLink_issued_link_twice:
  "generateSignupLink remote_ok random_zero 1000 ''L1'' ''https://app.example''
       \<lparr> si_zoho_id = ''Z1'', expiresInDays = 7 \<rparr> empty_db
     = (Inr \<lparr> signupLink = issued_link,
              loginUrl = ''https://app.example/magic-link/Z1/AAAAAAAAAAAA'' \<rparr>, issued_db) \<and>
   usage_limit issued_link = 1 \<and>
   validateSignupLink remote_ok 2000 issued_input issued_db
     = (Inr \<lparr> vr_signupLink = issued_link, vr_contact = JObj [(''id'', JStr ''Z1'')] \<rparr>,
        issued_db) \<and>
   map usage_count (signupLinks issued_db) = [0] \<and>
   validateSignupLink remote_ok 3000 issued_input issued_db
     = (Inr \<lparr> vr_signupLink = issued_link, vr_contact = JObj [(''id'', JStr ''Z1'')] \<rparr>,
        issued_db)"
  by (simp add: generateSignupLink_def generateSignupLink_try_def
        generateSecureLoginCode_random_zero getZohoContact_remote_ok signupLink_create_def
        add_days_def Let_def issued_link_def issued_db_def empty_db_def issued_input_def
        validateSignupLink_def validateSignupLink_try_def findFirst_def)

text \<open>
  In general, validation reads the usage count and never writes it.  For the unexpired
  link that matches the remote id and the code: when its usage count is below its limit
  and the remote contact can be fetched, validation succeeds and leaves the store
  unchanged; it fails with the usage-limit error exactly when the stored usage count has
  reached the limit; and in every case the usage counts in the store stay as they were.
\<close>

lemma validateSignupLink_reads_usage_count:
  assumes "findFirst (\<lambda>l. zoho_id l = vi_zoho_id inp \<and> login_code l = vi_login_code inp)
             (signupLinks db) = Some link"
      and "\<not> expires_at link < now"
  shows "(usage_count link < usage_limit link \<and>
          getZohoContact remote (zoho_id link) = Inr c \<and> truthy c \<longrightarrow>
            validateSignupLink remote now inp db
              = (Inr \<lparr> vr_signupLink = link, vr_contact = c \<rparr>, db)) \<and>
         (fst (validateSignupLink remote now inp db)
              = Inl (TRPCError BAD_REQUEST ''Signup link has exceeded usage limit'')
            \<longleftrightarrow> usage_limit link \<le> usage_count link) \<and>
         map usage_count (signupLinks (snd (validateSignupLink remote now inp db)))
           = map usage_count (signupLinks db)"
proof (intro conjI impI)
  assume "usage_count link < usage_limit link \<and>
          getZohoContact remote (zoho_id link) = Inr c \<and> truthy c"
  with assms
  show "validateSignupLink remote now inp db = (Inr \<lparr> vr_signupLink = link, vr_contact = c \<rparr>, db)"
    by (simp add: validateSignupLink_def validateSignupLink_try_def)
next
  show "(fst (validateSignupLink remote now inp db)
           = Inl (TRPCError BAD_REQUEST ''Signup link has exceeded usage limit''))
        = (usage_limit link \<le> usage_count link)"
  proof
    assume "fst (validateSignupLink remote now inp db)
              = Inl (TRPCError BAD_REQUEST ''Signup link has exceeded usage limit'')"
    from validateSignupLink_limit_only [OF this] assms(1)
    show "usage_limit link \<le> usage_count link" by auto
  next
    assume "usage_limit link \<le> usage_count link"
    with assms
    show "fst (validateSignupLink remote now inp db)
            = Inl (TRPCError BAD_REQUEST ''Signup link has exceeded usage limit'')"
      by (simp add: validateSignupLink_def validateSignupLink_try_def)
  qed
next
  show "map usage_count (signupLinks (snd (validateSignupLink remote now inp db)))
          = map usage_count (signupLinks db)"
    by (rule validateSignupLink_usage_count)
qed

text \<open>So the second validation of the issued link does not fail on the usage limit.\<close>

theorem validateSignupLink_issued_link_twice_witness:
  "fst (validateSignupLink remote_ok 3000 issued_input issued_db)
     \<noteq> Inl (TRPCError BAD_REQUEST ''Signup link has exceeded usage limit'') \<and>
   map usage_count
     (signupLinks (snd (validateSignupLink remote_ok 2000 issued_input issued_db))) = [0]"
  using validateSignupLink_issued_link_twice by simp

section \<open>Properties of the checkout session state machine\<close>

lemma string_column_Inr: "string_column v = Inr s \<longleftrightarrow> v = JStr s"
  by (cases v) (auto simp: string_column_def)

lemma truthy_string_id:
  assumes "truthy_prop resp ''id''" and "string_column (nullish (get_prop resp ''id'') JNull) = Inr s"
  shows "s \<noteq> []"
  using assms by (auto simp: truthy_prop_def nullish_def string_column_Inr split: option.splits)



lemma findFirst_Some:
  "findFirst wh rows = Some r \<Longrightarrow> wh r \<and> r \<in> set rows"
  by (auto simp: findFirst_def find_Some_iff)



lemma store_contact_links:
  "store_contact now u sid z upd db = (res, db') \<Longrightarrow>
     zohoAccountLinks db' = snd (zohoAccountLink_upsert u z now (zohoAccountLinks db)) \<and>
     zohoContactId res = z \<and> isUpdate res = upd"
  by (auto simp: store_contact_def Let_def set_session_status_def split: prod.splits)

lemma createOrUpdateContact_success:
  assumes "createOrUpdateContact remote now ctx inp db = (Inr r, db', sent)"
  shows "zohoAccountLinks db'
           = snd (zohoAccountLink_upsert (principal ctx inp) (zohoContactId r) now (zohoAccountLinks db))"
    and "zohoContactId r \<noteq> []"
    and "case findFirst (\<lambda>l. zl_userId l = principal ctx inp) (zohoAccountLinks db) of
           None \<Rightarrow> \<not> isUpdate r \<and> (\<exists>data. sent = [POST_Contacts data])
         | Some l \<Rightarrow>
             if zl_zohoUserId l \<noteq> [] then
               isUpdate r \<and> zohoContactId r = zl_zohoUserId l \<and>
               (\<exists>data. sent = [PUT_Contacts (zl_zohoUserId l) data])
             else \<not> isUpdate r \<and> (\<exists>data. sent = [POST_Contacts data])"
  using assms
  by (auto simp: createOrUpdateContact_def createOrUpdateContact_try_def Let_def
      split: option.splits if_splits sum.splits prod.splits
      dest!: store_contact_links dest: truthy_string_id)


lemma createOrUpdateContact_fails_unchanged:
  "createOrUpdateContact remote now ctx inp db = (Inl e, db', sent) \<Longrightarrow> db' = db"
  by (auto simp: createOrUpdateContact_def createOrUpdateContact_try_def Let_def
      split: option.splits if_splits sum.splits prod.splits)

lemma upsert_remote_ids:
  assumes "\<not> list_ex (\<lambda>l. zl_zohoUserId l = []) rows" and "z \<noteq> []"
  shows "\<not> list_ex (\<lambda>l. zl_zohoUserId l = []) (snd (zohoAccountLink_upsert u z t rows))"
  using assms
  by (auto simp: zohoAccountLink_upsert_def Let_def update_where_def list_ex_iff
      split: option.splits)

text \<open>
  The contact operation never stores an empty remote id: a store whose account links all
  carry a remote id stays so.
\<close>

lemma createOrUpdateContact_keeps_remote_ids:
  assumes "\<not> list_ex (\<lambda>l. zl_zohoUserId l = []) (zohoAccountLinks db)"
      and "createOrUpdateContact remote now ctx inp db = (r, db', sent)"
  shows "\<not> list_ex (\<lambda>l. zl_zohoUserId l = []) (zohoAccountLinks db')"
proof (cases r)
  case (Inl e)
  with assms(2) have "db' = db"
    by (auto dest: createOrUpdateContact_fails_unchanged)
  with assms(1) show ?thesis by simp
next
  case (Inr res)
  with assms(2) createOrUpdateContact_success [of remote now ctx inp db res db' sent]
  have "zohoAccountLinks db'
          = snd (zohoAccountLink_upsert (principal ctx inp) (zohoContactId res) now
                   (zohoAccountLinks db))"
    and "zohoContactId res \<noteq> []"
    by simp_all
  with assms(1) show ?thesis by (simp add: upsert_remote_ids)
qed





text \<open>
  C3.  For the caller's session in status \<^verbatim>\<open>created\<close>, \<^verbatim>\<open>createSalesOrder\<close> with
  \<^verbatim>\<open>requirePaymentConfirmed\<close> set fails with \<^verbatim>\<open>BAD_REQUEST\<close> (the precondition error), sends
  nothing to the remote service and leaves the store as it was; so a session without a
  sales-order row that carries a remote id has none afterwards.
\<close>

theorem createSalesOrder_requires_payment:
  assumes "findFirst (\<lambda>s. cs_id s = soi_checkoutSessionId inp \<and> cs_userId s = session_user_id ctx)
             (checkoutSessions db) = Some cs"
      and "cs_status cs = ''created''"
      and "soi_requirePaymentConfirmed inp"
  shows "createSalesOrder remote ctx inp db
           = (Inl (TRPCError BAD_REQUEST ''Payment must be confirmed before creating sales order''),
              db, []) \<and>
         (\<not> has_remote_sales_order (soi_checkoutSessionId inp) db \<longrightarrow>
            \<not> has_remote_sales_order (soi_checkoutSessionId inp)
                (fst (snd (createSalesOrder remote ctx inp db))))"
  using assms by (simp add: createSalesOrder_def createSalesOrder_try_def)

theorem createSalesOrder_requires_payment_witness:
  "createSalesOrder remote_ok ctx_ann sales_call (shop_db ''created'')
     = (Inl (TRPCError BAD_REQUEST ''Payment must be confirmed before creating sales order''),
        shop_db ''created'', []) \<and>
   \<not> has_remote_sales_order ''s1''
       (fst (snd (createSalesOrder remote_ok ctx_ann sales_call (shop_db ''created''))))"
  using createSalesOrder_requires_payment
          [of sales_call ctx_ann "shop_db ''created''" "session_s1 ''created''" remote_ok]
  by (simp add: findFirst_def sales_call_def ctx_ann_def shop_db_def empty_db_def
        session_s1_def has_remote_sales_order_def)

text \<open>
  C5, as stated, fails.  The session \<^verbatim>\<open>s1\<close> belongs to the user \<^verbatim>\<open>u1\<close>.  The caller \<^verbatim>\<open>u2\<close>
  passes \<^verbatim>\<open>userId = u1\<close>: the session is looked up for the user named in the input, it
  is found, the contact is created and the status of the session is advanced.
\<close>

theorem createOrUpdateContact_other_user_counterexample:
  "checkoutSessions (shop_db ''payment_completed'') = [session_s1 ''payment_completed''] \<and>
   cs_userId (session_s1 ''payment_completed'') \<noteq> session_user_id ctx_eve \<and>
   createOrUpdateContact remote_ok 1000 ctx_eve contact_call_naming_ann
       (shop_db ''payment_completed'')
     = (Inr \<lparr> zohoContactId = ''Z1'', isUpdate = False,
              zohoLink = \<lparr> zl_userId = ''u1'', zl_zohoUserId = ''Z1'', zl_updatedAt = 1000 \<rparr>,
              cr_message = ''Zoho contact created successfully'' \<rparr>,
        linked_db, [POST_Contacts ann_contactData]) \<and>
   map cs_status (checkoutSessions linked_db) = [''contact_created'']"
  by (simp add: createOrUpdateContact_def createOrUpdateContact_try_def principal_def nullish_def
        contact_call_naming_ann_def ctx_eve_def shop_db_def empty_db_def session_s1_def ann_def
        acme_def findFirst_def prepare_contactData_def split_def slice_last_def
        slice_but_last_def createZohoContact_def fetch_and_handle_def remote_ok_def
        handleZohoApiResponse_def truthy_prop_def string_column_def store_contact_def
        zohoAccountLink_upsert_def set_session_status_def update_where_def Let_def
        linked_db_def ann_contactData_def)

text \<open>
  C5, amended.  The contact operation runs for the principal
  \<^verbatim>\<open>input.userId ?? ctx.session.user.id\<close>, which is the authenticated caller when the input
  names no user.  When no session has the given id and that principal as owner, it fails
  with \<^verbatim>\<open>NOT_FOUND\<close>.  When the session has no company information, and when it has but
  the agreement is required and is missing or not \<^verbatim>\<open>completed\<close>, it fails with
  \<^verbatim>\<open>BAD_REQUEST\<close>.  In each case nothing is sent and the store is returned as it was, so
  the status of the session is not advanced.
\<close>

theorem createOrUpdateContact_preconditions:
  "(ci_userId inp = None \<longrightarrow> principal ctx inp = session_user_id ctx) \<and>
   (\<not> list_ex (\<lambda>s. cs_id s = ci_checkoutSessionId inp \<and> cs_userId s = principal ctx inp)
        (checkoutSessions db) \<longrightarrow>
      createOrUpdateContact remote now ctx inp db
        = (Inl (TRPCError NOT_FOUND ''Checkout session not found''), db, [])) \<and>
   (findFirst (\<lambda>s. cs_id s = ci_checkoutSessionId inp \<and> cs_userId s = principal ctx inp)
      (checkoutSessions db) = Some cs \<and> cs_companyInfo cs = None \<longrightarrow>
      createOrUpdateContact remote now ctx inp db
        = (Inl (TRPCError BAD_REQUEST ''Company information not found''), db, [])) \<and>
   (findFirst (\<lambda>s. cs_id s = ci_checkoutSessionId inp \<and> cs_userId s = principal ctx inp)
      (checkoutSessions db) = Some cs \<and> cs_companyInfo cs \<noteq> None \<and>
    ci_requireAgreementSigned inp \<and>
    (cs_agreement cs = None \<or>
     (\<exists>a. cs_agreement cs = Some a \<and> agreement_status a \<noteq> ''completed'')) \<longrightarrow>
      createOrUpdateContact remote now ctx inp db
        = (Inl (TRPCError BAD_REQUEST ''Agreement must be signed before creating Zoho contact''),
           db, []))"
proof (intro conjI impI)
  assume "ci_userId inp = None"
  then show "principal ctx inp = session_user_id ctx"
    by (simp add: principal_def nullish_def)
next
  assume "\<not> list_ex (\<lambda>s. cs_id s = ci_checkoutSessionId inp \<and> cs_userId s = principal ctx inp)
            (checkoutSessions db)"
  then have "findFirst (\<lambda>s. cs_id s = ci_checkoutSessionId inp \<and> cs_userId s = principal ctx inp)
               (checkoutSessions db) = None"
    by (simp add: findFirst_def find_None_iff list_ex_iff)
  then show "createOrUpdateContact remote now ctx inp db
               = (Inl (TRPCError NOT_FOUND ''Checkout session not found''), db, [])"
    by (simp add: createOrUpdateContact_def createOrUpdateContact_try_def)
next
  assume "findFirst (\<lambda>s. cs_id s = ci_checkoutSessionId inp \<and> cs_userId s = principal ctx inp)
            (checkoutSessions db) = Some cs \<and> cs_companyInfo cs = None"
  then show "createOrUpdateContact remote now ctx inp db
               = (Inl (TRPCError BAD_REQUEST ''Company information not found''), db, [])"
    by (simp add: createOrUpdateContact_def createOrUpdateContact_try_def)
next
  assume "findFirst (\<lambda>s. cs_id s = ci_checkoutSessionId inp \<and> cs_userId s = principal ctx inp)
            (checkoutSessions db) = Some cs \<and> cs_companyInfo cs \<noteq> None \<and>
          ci_requireAgreementSigned inp \<and>
          (cs_agreement cs = None \<or>
           (\<exists>a. cs_agreement cs = Some a \<and> agreement_status a \<noteq> ''completed''))"
  then show "createOrUpdateContact remote now ctx inp db
               = (Inl (TRPCError BAD_REQUEST
                         ''Agreement must be signed before creating Zoho contact''), db, [])"
    by (auto simp: createOrUpdateContact_def createOrUpdateContact_try_def)
qed

text \<open>
  The theorem at a caller who names no user and does not own the session, at a session
  without company information and at a session whose agreement is pending.
\<close>

theorem createOrUpdateContact_preconditions_witness:
  "principal ctx_eve contact_call = ''u2'' \<and>
   createOrUpdateContact remote_ok 1000 ctx_eve contact_call (shop_db ''payment_completed'')
     = (Inl (TRPCError NOT_FOUND ''Checkout session not found''),
        shop_db ''payment_completed'', []) \<and>
   createOrUpdateContact remote_ok 1000 ctx_ann contact_call no_company_db
     = (Inl (TRPCError BAD_REQUEST ''Company information not found''), no_company_db, []) \<and>
   createOrUpdateContact remote_ok 1000 ctx_ann contact_call pending_db
     = (Inl (TRPCError BAD_REQUEST ''Agreement must be signed before creating Zoho contact''),
        pending_db, [])"
  using createOrUpdateContact_preconditions
          [of contact_call ctx_eve "shop_db ''payment_completed''" remote_ok 1000]
        createOrUpdateContact_preconditions
          [of contact_call ctx_ann no_company_db remote_ok 1000
              "(session_s1 ''payment_completed'')\<lparr> cs_companyInfo := None \<rparr>"]
        createOrUpdateContact_preconditions
          [of contact_call ctx_ann pending_db remote_ok 1000
              "(session_s1 ''payment_completed'')
                 \<lparr> cs_agreement := Some \<lparr> agreement_status = ''pending'' \<rparr> \<rparr>"]
  by (simp add: findFirst_def principal_def nullish_def contact_call_def ctx_ann_def ctx_eve_def
        shop_db_def no_company_db_def pending_db_def empty_db_def session_s1_def)

lemma createOrUpdateContact_try_remote_fails:
  assumes "createOrUpdateContact_try remote now ctx inp db = (r, db', sent)"
      and "sent = [q]"
      and "fetch_and_handle remote q = Inl e"
  shows "db' = db \<and> r = Inl e"
  using assms
  by (auto simp: createOrUpdateContact_try_def Let_def createZohoContact_def
        updateZohoContact_def split: option.splits if_splits sum.splits prod.splits)

lemma createOrUpdateContact_try_sent:
  assumes "createOrUpdateContact_try remote now ctx inp db = (r, db', sent)"
  shows "(sent = [] \<longrightarrow> db' = db) \<and>
         (sent = [] \<or> (\<exists>d. sent = [POST_Contacts d]) \<or> (\<exists>z d. sent = [PUT_Contacts z d]))"
  using assms
  by (auto simp: createOrUpdateContact_try_def Let_def
      split: option.splits if_splits sum.splits prod.splits)

lemma createSalesOrder_try_remote_fails:
  assumes "createSalesOrder_try remote ctx inp db = (r, db', sent)"
      and "sent = [q]"
      and "fetch_and_handle remote q = Inl e"
  shows "db' = db \<and> r = Inl e"
  using assms
  by (auto simp: createSalesOrder_try_def Let_def createZohoSalesOrder_def
      split: option.splits if_splits sum.splits prod.splits)

lemma createSalesOrder_try_sent:
  assumes "createSalesOrder_try remote ctx inp db = (r, db', sent)"
  shows "(sent = [] \<longrightarrow> db' = db) \<and> (sent = [] \<or> (\<exists>d. sent = [POST_Sales_Orders d]))"
  using assms
  by (auto simp: createSalesOrder_try_def Let_def
      split: option.splits if_splits sum.splits prod.splits)

lemma createOrUpdateContact_unfold:
  "createOrUpdateContact remote now ctx inp db = (r, db', sent) \<Longrightarrow>
     \<exists>r0. createOrUpdateContact_try remote now ctx inp db = (r0, db', sent) \<and>
          r = (case r0 of Inl err \<Rightarrow> Inl (createOrUpdateContact_catch err) | Inr res \<Rightarrow> Inr res)"
  by (auto simp: createOrUpdateContact_def split: prod.splits sum.splits)

lemma createSalesOrder_unfold:
  "createSalesOrder remote ctx inp db = (r, db', sent) \<Longrightarrow>
     \<exists>r0. createSalesOrder_try remote ctx inp db = (r0, db', sent) \<and>
          r = (case r0 of Inl err \<Rightarrow> Inl (createSalesOrder_catch err) | Inr res \<Rightarrow> Inr res)"
  by (auto simp: createSalesOrder_def split: prod.splits sum.splits)

text \<open>
  C6.  Both advance operations send at most one request, a contact write or a sales-order
  write, and they write to the store only after it.  When the request that was sent
  fails, be it a rejected \<^verbatim>\<open>fetch\<close> or an error raised by the response handler, the
  operation fails with that error as its \<^verbatim>\<open>catch\<close> block passes it on, and the store, the
  status of the session with it, is as before the call; so is it when nothing was sent.
  The call can then be repeated on the same store.
\<close>

theorem remote_write_failure_leaves_store:
  "(createOrUpdateContact remote now ctx inp db = (r, db', sent) \<longrightarrow>
      (sent = [] \<or> (\<exists>d. sent = [POST_Contacts d]) \<or> (\<exists>z d. sent = [PUT_Contacts z d])) \<and>
      (sent = [] \<longrightarrow> db' = db) \<and>
      (sent = [q] \<and> fetch_and_handle remote q = Inl e \<longrightarrow>
         db' = db \<and> r = Inl (createOrUpdateContact_catch e))) \<and>
   (createSalesOrder remote2 ctx2 inp2 db2 = (r2, db2', sent2) \<longrightarrow>
      (sent2 = [] \<or> (\<exists>d. sent2 = [POST_Sales_Orders d])) \<and>
      (sent2 = [] \<longrightarrow> db2' = db2) \<and>
      (sent2 = [q2] \<and> fetch_and_handle remote2 q2 = Inl e2 \<longrightarrow>
         db2' = db2 \<and> r2 = Inl (createSalesOrder_catch e2)))"
proof (intro conjI impI)
  assume a: "createOrUpdateContact remote now ctx inp db = (r, db', sent)"
  then obtain r0 where t: "createOrUpdateContact_try remote now ctx inp db = (r0, db', sent)"
    and r: "r = (case r0 of Inl err \<Rightarrow> Inl (createOrUpdateContact_catch err)
                 | Inr res \<Rightarrow> Inr res)"
    by (auto dest: createOrUpdateContact_unfold)
  from createOrUpdateContact_try_sent [OF t]
  show "sent = [] \<or> (\<exists>d. sent = [POST_Contacts d]) \<or> (\<exists>z d. sent = [PUT_Contacts z d])"
    by simp
  { assume "sent = []"
    with createOrUpdateContact_try_sent [OF t] show "db' = db" by simp }
  { assume f: "sent = [q] \<and> fetch_and_handle remote q = Inl e"
    with createOrUpdateContact_try_remote_fails [OF t, of q e]
    have "db' = db \<and> r0 = Inl e" by simp
    with r show "db' = db" and "r = Inl (createOrUpdateContact_catch e)" by simp_all }
next
  assume a: "createSalesOrder remote2 ctx2 inp2 db2 = (r2, db2', sent2)"
  then obtain r0 where t: "createSalesOrder_try remote2 ctx2 inp2 db2 = (r0, db2', sent2)"
    and r: "r2 = (case r0 of Inl err \<Rightarrow> Inl (createSalesOrder_catch err) | Inr res \<Rightarrow> Inr res)"
    by (auto dest: createSalesOrder_unfold)
  from createSalesOrder_try_sent [OF t]
  show "sent2 = [] \<or> (\<exists>d. sent2 = [POST_Sales_Orders d])"
    by simp
  { assume "sent2 = []"
    with createSalesOrder_try_sent [OF t] show "db2' = db2" by simp }
  { assume f: "sent2 = [q2] \<and> fetch_and_handle remote2 q2 = Inl e2"
    with createSalesOrder_try_remote_fails [OF t, of q2 e2]
    have "db2' = db2 \<and> r0 = Inl e2" by simp
    with r show "db2' = db2" and "r2 = Inl (createSalesOrder_catch e2)" by simp_all }
qed

lemma contact_call_remote_down:
  "createOrUpdateContact remote_down 1000 ctx_ann contact_call (shop_db ''payment_completed'')
   = (Inl (TRPCError INTERNAL_SERVER_ERROR ''fetch failed''), shop_db ''payment_completed'',
      [POST_Contacts ann_contactData])"
  by (simp add: createOrUpdateContact_def createOrUpdateContact_try_def principal_def nullish_def
        contact_call_def ctx_ann_def shop_db_def empty_db_def session_s1_def ann_def acme_def
        findFirst_def prepare_contactData_def split_def slice_last_def slice_but_last_def
        createZohoContact_def fetch_and_handle_def remote_down_def Let_def ann_contactData_def)

lemma sales_call_remote_down:
  "createSalesOrder remote_down ctx_ann sales_call linked_db
   = (Inl (TRPCError INTERNAL_SERVER_ERROR ''Failed to create Zoho sales order''), linked_db,
      [POST_Sales_Orders s1_salesOrderData])"
  by (simp add: createSalesOrder_def createSalesOrder_try_def nullish_def sales_call_def
        ctx_ann_def linked_db_def shop_db_def empty_db_def session_s1_def findFirst_def
        prepare_salesOrderData_def createZohoSalesOrder_def fetch_and_handle_def
        remote_down_def Let_def s1_salesOrderData_def)

lemma contact_call_empty_db:
  "createOrUpdateContact remote_ok 1000 ctx_ann contact_call empty_db
   = (Inl (TRPCError NOT_FOUND ''Checkout session not found''), empty_db, [])"
  by (simp add: createOrUpdateContact_def createOrUpdateContact_try_def empty_db_def
        findFirst_def)

lemma sales_call_empty_db:
  "createSalesOrder remote_ok ctx_ann sales_call empty_db
   = (Inl (TRPCError NOT_FOUND ''Checkout session not found''), empty_db, [])"
  by (simp add: createSalesOrder_def createSalesOrder_try_def empty_db_def findFirst_def)

text \<open>
  The theorem at an unreachable remote service: the contact call on a paid session and
  the sales-order call on the session with its contact created both fail and return the
  store they were given; and at the empty store, where both calls fail before they send
  anything.
\<close>

theorem remote_write_failure_leaves_store_witness:
  "fst (snd (createOrUpdateContact remote_down 1000 ctx_ann contact_call
               (shop_db ''payment_completed''))) = shop_db ''payment_completed'' \<and>
   fst (createOrUpdateContact remote_down 1000 ctx_ann contact_call
          (shop_db ''payment_completed''))
     = Inl (TRPCError INTERNAL_SERVER_ERROR ''fetch failed'') \<and>
   fst (snd (createSalesOrder remote_down ctx_ann sales_call linked_db)) = linked_db \<and>
   fst (createSalesOrder remote_down ctx_ann sales_call linked_db)
     = Inl (TRPCError INTERNAL_SERVER_ERROR ''Failed to create Zoho sales order'') \<and>
   fst (snd (createOrUpdateContact remote_ok 1000 ctx_ann contact_call empty_db)) = empty_db \<and>
   fst (snd (createSalesOrder remote_ok ctx_ann sales_call empty_db)) = empty_db"
proof -
  have down:
    "fetch_and_handle remote_down (POST_Contacts ann_contactData) = Inl (Error ''fetch failed'')"
    "fetch_and_handle remote_down (POST_Sales_Orders s1_salesOrderData)
       = Inl (Error ''fetch failed'')"
    by (simp_all add: fetch_and_handle_def remote_down_def)
  from remote_write_failure_leaves_store
         [of remote_down 1000 ctx_ann contact_call "shop_db ''payment_completed''"
             "Inl (TRPCError INTERNAL_SERVER_ERROR ''fetch failed'')"
             "shop_db ''payment_completed''" "[POST_Contacts ann_contactData]"
             "POST_Contacts ann_contactData" "Error ''fetch failed''"
             remote_down ctx_ann sales_call linked_db
             "Inl (TRPCError INTERNAL_SERVER_ERROR ''Failed to create Zoho sales order'')"
             linked_db "[POST_Sales_Orders s1_salesOrderData]"
             "POST_Sales_Orders s1_salesOrderData" "Error ''fetch failed''"]
  have sent:
    "fst (snd (createOrUpdateContact remote_down 1000 ctx_ann contact_call
                 (shop_db ''payment_completed''))) = shop_db ''payment_completed''"
    "fst (createOrUpdateContact remote_down 1000 ctx_ann contact_call
            (shop_db ''payment_completed''))
       = Inl (TRPCError INTERNAL_SERVER_ERROR ''fetch failed'')"
    "fst (snd (createSalesOrder remote_down ctx_ann sales_call linked_db)) = linked_db"
    "fst (createSalesOrder remote_down ctx_ann sales_call linked_db)
       = Inl (TRPCError INTERNAL_SERVER_ERROR ''Failed to create Zoho sales order'')"
    unfolding contact_call_remote_down sales_call_remote_down
    by (simp_all add: down)
  from remote_write_failure_leaves_store
         [of remote_ok 1000 ctx_ann contact_call empty_db
             "Inl (TRPCError NOT_FOUND ''Checkout session not found'')" empty_db "[]" _ _
             remote_ok ctx_ann sales_call empty_db
             "Inl (TRPCError NOT_FOUND ''Checkout session not found'')" empty_db "[]"]
  have unsent:
    "fst (snd (createOrUpdateContact remote_ok 1000 ctx_ann contact_call empty_db)) = empty_db"
    "fst (snd (createSalesOrder remote_ok ctx_ann sales_call empty_db)) = empty_db"
    unfolding contact_call_empty_db sales_call_empty_db
    by simp_all
  from sent unsent show ?thesis by simp
qed

section \<open>Properties of the aggregated profile read\<close>








section \<open>Properties of the signup link issuer\<close>














section \<open>Properties of the registration endpoint\<close>

lemma findFirst_None: "findFirst wh rows = None \<longleftrightarrow> \<not> list_ex wh rows"
  by (auto simp: findFirst_def find_None_iff list_ex_iff)

text \<open>
  C10, as stated, fails.  The request carries the address of a stored user and a password
  of five characters: validation comes first, and the answer is status 400 with
  \<^verbatim>\<open>Invalid input\<close>, not with \<^verbatim>\<open>User already exists\<close>.
\<close>

theorem POST_register_existing_email_counterexample:
  "list_ex (\<lambda>u. user_email u = Some ''ann@example.com'') (users (shop_db ''created'')) \<and>
   get_prop body_ann_short ''email'' = Some (JStr ''ann@example.com'') \<and>
   POST_register contains_at example_hash ''u9'' (Inr body_ann_short) (shop_db ''created'')
     = (\<lparr> http_status = 400, http_error = Some ''Invalid input'', http_user = None \<rparr>,
        shop_db ''created'')"
  by (simp add: POST_register_def registrationSchema_def body_ann_short_def shop_db_def
        empty_db_def ann_def contains_at_def)

text \<open>
  C10, amended.  A request that passes validation and whose address belongs to a stored
  user is answered with status 400 and \<^verbatim>\<open>User already exists\<close>; a request that fails
  validation is answered with status 400 and \<^verbatim>\<open>Invalid input\<close>, whoever owns its address;
  in both cases the store is unchanged.  The user table changes only when the request
  passes validation and no stored user has its address, and then by one appended row
  with that address, the hashed password and the name.
\<close>

theorem POST_register_existing_email:
  "(registrationSchema is_email data = Some inp \<and>
    list_ex (\<lambda>u. user_email u = Some (reg_email inp)) (users db) \<longrightarrow>
      POST_register is_email hash fresh_id (Inr data) db
        = (\<lparr> http_status = 400, http_error = Some ''User already exists'', http_user = None \<rparr>,
           db)) \<and>
   (registrationSchema is_email data = None \<longrightarrow>
      POST_register is_email hash fresh_id (Inr data) db
        = (\<lparr> http_status = 400, http_error = Some ''Invalid input'', http_user = None \<rparr>, db)) \<and>
   (users (snd (POST_register is_email hash fresh_id req_body db)) \<noteq> users db \<longrightarrow>
      (\<exists>data' inp'.
          req_body = Inr data' \<and> registrationSchema is_email data' = Some inp' \<and>
          \<not> list_ex (\<lambda>u. user_email u = Some (reg_email inp')) (users db) \<and>
          snd (POST_register is_email hash fresh_id req_body db)
            = db\<lparr> users := users db @
                     [\<lparr> user_id = fresh_id, user_email = Some (reg_email inp'),
                        user_password = Some (hash (reg_password inp') 12),
                        user_name = reg_name inp' \<rparr>] \<rparr>))"
proof (intro conjI impI)
  assume a: "registrationSchema is_email data = Some inp \<and>
             list_ex (\<lambda>u. user_email u = Some (reg_email inp)) (users db)"
  then obtain u where "findFirst (\<lambda>u. user_email u = Some (reg_email inp)) (users db) = Some u"
    by (cases "findFirst (\<lambda>u. user_email u = Some (reg_email inp)) (users db)")
       (auto simp: findFirst_None)
  with a show "POST_register is_email hash fresh_id (Inr data) db
        = (\<lparr> http_status = 400, http_error = Some ''User already exists'', http_user = None \<rparr>,
           db)"
    by (simp add: POST_register_def)
next
  assume "registrationSchema is_email data = None"
  then show "POST_register is_email hash fresh_id (Inr data) db
        = (\<lparr> http_status = 400, http_error = Some ''Invalid input'', http_user = None \<rparr>, db)"
    by (simp add: POST_register_def)
next
  assume "users (snd (POST_register is_email hash fresh_id req_body db)) \<noteq> users db"
  then show "\<exists>data' inp'.
          req_body = Inr data' \<and> registrationSchema is_email data' = Some inp' \<and>
          \<not> list_ex (\<lambda>u. user_email u = Some (reg_email inp')) (users db) \<and>
          snd (POST_register is_email hash fresh_id req_body db)
            = db\<lparr> users := users db @
                     [\<lparr> user_id = fresh_id, user_email = Some (reg_email inp'),
                        user_password = Some (hash (reg_password inp') 12),
                        user_name = reg_name inp' \<rparr>] \<rparr>"
    by (auto simp: POST_register_def user_create_def Let_def findFirst_None list_ex_iff
          split: sum.splits option.splits if_splits dest!: findFirst_Some)
qed

text \<open>
  The theorem at the stored user's address with a good password, at the same address with
  a short password, and at an unused address.
\<close>

theorem POST_register_existing_email_witness:
  "POST_register contains_at example_hash ''u9'' (Inr body_ann) (shop_db ''created'')
     = (\<lparr> http_status = 400, http_error = Some ''User already exists'', http_user = None \<rparr>,
        shop_db ''created'') \<and>
   POST_register contains_at example_hash ''u9'' (Inr body_ann_short) (shop_db ''created'')
     = (\<lparr> http_status = 400, http_error = Some ''Invalid input'', http_user = None \<rparr>,
        shop_db ''created'') \<and>
   map user_email (users (snd (POST_register contains_at example_hash ''u9'' (Inr body_bob)
                                 (shop_db ''created''))))
     = [Some ''ann@example.com'', Some ''bob@example.com'']"
proof -
  have ann_ok: "registrationSchema contains_at body_ann
                = Some \<lparr> reg_email = ''ann@example.com'', reg_password = ''correct horse'',
                         reg_name = None \<rparr>"
    by (simp add: registrationSchema_def body_ann_def contains_at_def)
  have short: "registrationSchema contains_at body_ann_short = None"
    by (simp add: registrationSchema_def body_ann_short_def contains_at_def)
  have stored: "list_ex (\<lambda>u. user_email u = Some ''ann@example.com'') (users (shop_db ''created''))"
    by (simp add: shop_db_def empty_db_def ann_def)
  have bob: "users (snd (POST_register contains_at example_hash ''u9'' (Inr body_bob)
                           (shop_db ''created'')))
             \<noteq> users (shop_db ''created'')"
    by (simp add: POST_register_def registrationSchema_def body_bob_def contains_at_def
          shop_db_def empty_db_def ann_def findFirst_def user_create_def Let_def)
  from POST_register_existing_email
         [of contains_at body_ann
             "\<lparr> reg_email = ''ann@example.com'', reg_password = ''correct horse'',
                reg_name = None \<rparr>"
             "shop_db ''created''" example_hash "''u9''"] ann_ok stored
  have a: "POST_register contains_at example_hash ''u9'' (Inr body_ann) (shop_db ''created'')
     = (\<lparr> http_status = 400, http_error = Some ''User already exists'', http_user = None \<rparr>,
        shop_db ''created'')"
    by simp
  from POST_register_existing_email
         [of contains_at body_ann_short _ "shop_db ''created''" example_hash "''u9''"] short
  have b: "POST_register contains_at example_hash ''u9'' (Inr body_ann_short) (shop_db ''created'')
     = (\<lparr> http_status = 400, http_error = Some ''Invalid input'', http_user = None \<rparr>,
        shop_db ''created'')"
    by simp
  from POST_register_existing_email
         [of contains_at _ _ "shop_db ''created''" example_hash "''u9''" "Inr body_bob"] bob
  obtain inp' where "registrationSchema contains_at body_bob = Some inp'"
    and "snd (POST_register contains_at example_hash ''u9'' (Inr body_bob) (shop_db ''created''))
         = (shop_db ''created'')\<lparr> users := users (shop_db ''created'') @
                     [\<lparr> user_id = ''u9'', user_email = Some (reg_email inp'),
                        user_password = Some (example_hash (reg_password inp') 12),
                        user_name = reg_name inp' \<rparr>] \<rparr>"
    by auto
  then have c: "map user_email (users (snd (POST_register contains_at example_hash ''u9''
                                  (Inr body_bob) (shop_db ''created''))))
                = [Some ''ann@example.com'', Some ''bob@example.com'']"
    by (auto simp: registrationSchema_def body_bob_def contains_at_def shop_db_def empty_db_def
          ann_def)
  from a b c show ?thesis by simp
qed

end
